theory Spec2Isabelle
  imports Complex_Main "HOL-Library.AList" "HOL-Library.Sublist"
begin

section \<open>House rental API: documents, the document store and the request handlers\<close>

text \<open>
  The handlers of \<^verbatim>\<open>main.py\<close> are embedded as functions on an explicit state: the three
  collections of the document store and the files of the upload directory. A handler
  returns the new state together with either an error (the exception that ends the
  request) or its response. Strings are lists of 8-bit characters; case folding is that
  of the ASCII letters. A Python \<^verbatim>\<open>float\<close> is read as a real number.
\<close>

subsection \<open>Values and documents\<close>

text \<open>
  \<^verbatim>\<open>bson.ObjectId\<close>: twelve bytes, kept as their 24 lower-case hexadecimal digits,
  which is what \<^verbatim>\<open>str(oid)\<close> prints.
\<close>

datatype objectid = Oid string

fun str_oid :: "objectid \<Rightarrow> string" where
  "str_oid (Oid h) = h"

text \<open>
  The values of a document's fields. \<open>Datetime\<close> is a \<^verbatim>\<open>datetime\<close>, as microseconds
  since the epoch.
\<close>

datatype val = Str string | Float real | Intg int | Null | Id objectid | Datetime int

text \<open>A Python \<^verbatim>\<open>dict\<close> with string keys, in insertion order.\<close>

type_synonym document = "(string \<times> val) list"

text \<open>
  A document of a collection: the identifier the store assigned on insertion
  (the \<^verbatim>\<open>_id\<close> field) and the fields the handler wrote.
\<close>

record stored =
  oid :: objectid
  body :: document

definition lower_char :: "char \<Rightarrow> char" where
  "lower_char c =
     (case map_of (zip ''ABCDEFGHIJKLMNOPQRSTUVWXYZ'' ''abcdefghijklmnopqrstuvwxyz'') c of
        Some d \<Rightarrow> d
      | None \<Rightarrow> c)"

definition lower :: "string \<Rightarrow> string" where
  "lower s = map lower_char s"

definition is_hex :: "char \<Rightarrow> bool" where
  "is_hex c = (c \<in> set ''0123456789abcdefABCDEF'')"

text \<open>
  \<^verbatim>\<open>ObjectId(prop_id)\<close> on a string, after the documentation of \<^verbatim>\<open>bson\<close>: a string
  of 24 hexadecimal digits gives the identifier, any other string raises
  \<^verbatim>\<open>InvalidId\<close> (the value \<open>None\<close> here).
\<close>

definition ObjectId :: "string \<Rightarrow> objectid option" where
  "ObjectId s = (if length s = 24 \<and> list_all is_hex s then Some (Oid (lower s)) else None)"

subsection \<open>The document store\<close>

text \<open>
  The queries the handlers build. \<open>ById i\<close> is \<^verbatim>\<open>{"_id": i}\<close>; \<open>Field k c\<close> is a
  condition on the field \<open>k\<close>; \<open>AnyOf\<close> is \<^verbatim>\<open>$or\<close> over conditions on fields.
  \<open>Regex p\<close> is \<^verbatim>\<open>{"$regex": p, "$options": "i"}\<close>, and \<open>Range lo hi\<close> is the
  dictionary holding \<^verbatim>\<open>$gte\<close> and \<^verbatim>\<open>$lte\<close> when they are given.
\<close>

datatype cond = Eq val | Regex string | Range "real option" "real option"

datatype clause = ById objectid | Field string cond | AnyOf "(string \<times> cond) list"

type_synonym query = "clause list"

text \<open>
  The regular-expression engine of the store is not part of the repository: it is a
  parameter \<open>rx\<close>, with \<open>rx p = None\<close> when the engine rejects the pattern \<open>p\<close> and
  \<open>rx p = Some m\<close> when it compiles, \<open>m s\<close> telling whether \<open>p\<close> matches somewhere in
  the string \<open>s\<close>, letter case ignored.
\<close>

type_synonym regex_engine = "string \<Rightarrow> (string \<Rightarrow> bool) option"

fun num_of :: "val \<Rightarrow> real option" where
  "num_of (Float r) = Some r"
| "num_of (Intg i) = Some (of_int i)"
| "num_of _ = None"

fun holds :: "regex_engine \<Rightarrow> cond \<Rightarrow> val option \<Rightarrow> bool" where
  "holds rx (Eq v) (Some w) =
     (case (num_of v, num_of w) of
        (Some a, Some b) \<Rightarrow> a = b
      | _ \<Rightarrow> w = v)"
| "holds rx (Eq v) None = (v = Null)"
| "holds rx (Regex p) (Some (Str s)) = (case rx p of Some m \<Rightarrow> m s | None \<Rightarrow> False)"
| "holds rx (Regex p) _ = False"
| "holds rx (Range lo hi) (Some w) =
     (case num_of w of
        None \<Rightarrow> False
      | Some r \<Rightarrow> (case lo of None \<Rightarrow> True | Some l \<Rightarrow> l \<le> r)
                 \<and> (case hi of None \<Rightarrow> True | Some h \<Rightarrow> r \<le> h))"
| "holds rx (Range lo hi) None = False"

fun sat :: "regex_engine \<Rightarrow> clause \<Rightarrow> stored \<Rightarrow> bool" where
  "sat rx (ById i) d = (oid d = i)"
| "sat rx (Field k c) d = holds rx c (map_of (body d) k)"
| "sat rx (AnyOf kcs) d = list_ex (\<lambda>(k, c). holds rx c (map_of (body d) k)) kcs"

definition matches :: "regex_engine \<Rightarrow> query \<Rightarrow> stored \<Rightarrow> bool" where
  "matches rx q d = list_all (\<lambda>c. sat rx c d) q"

text \<open>The engine used where a query holds no regular expression.\<close>

definition no_rx :: regex_engine where
  "no_rx p = None"

text \<open>\<^verbatim>\<open>find_one\<close>: the first document of the collection that matches, or \<^verbatim>\<open>None\<close>.\<close>

definition find_one :: "query \<Rightarrow> stored list \<Rightarrow> stored option" where
  "find_one q coll = find (matches no_rx q) coll"

text \<open>
  \<^verbatim>\<open>insert_one\<close>: the document is appended under the fresh identifier \<open>i\<close> that the
  driver generates.
\<close>

definition insert_one :: "objectid \<Rightarrow> document \<Rightarrow> stored list \<Rightarrow> stored list" where
  "insert_one i doc coll = coll @ [\<lparr>oid = i, body = doc\<rparr>]"

text \<open>\<^verbatim>\<open>$set\<close>: every key of \<open>updates\<close> is written, the other fields stay.\<close>

definition set_fields :: "document \<Rightarrow> document \<Rightarrow> document" where
  "set_fields updates doc = fold (\<lambda>(k, v). AList.update k v) updates doc"

text \<open>\<^verbatim>\<open>update_one\<close> with \<^verbatim>\<open>$set\<close>: only the first matching document changes.\<close>

fun update_one :: "query \<Rightarrow> document \<Rightarrow> stored list \<Rightarrow> stored list" where
  "update_one q updates [] = []"
| "update_one q updates (d # ds) =
     (if matches no_rx q d then d\<lparr>body := set_fields updates (body d)\<rparr> # ds
      else d # update_one q updates ds)"


text \<open>
  The state the handlers act on: the collections \<^verbatim>\<open>db["user"]\<close>, \<^verbatim>\<open>db["property"]\<close>
  and \<^verbatim>\<open>db["contactmessage"]\<close>, and the files written so far, by path.
\<close>

record state =
  user :: "stored list"
  property :: "stored list"
  contactmessage :: "stored list"
  files :: "string \<rightharpoonup> string"

text \<open>
  \<^verbatim>\<open>HTTPException(status, detail)\<close>, and an exception no handler catches, which the
  framework answers with status 500.
\<close>

datatype error = HTTPException nat string | Unhandled string

text \<open>A document as it is returned: \<^verbatim>\<open>d["_id"] = str(d["_id"])\<close>.\<close>

definition stringified :: "stored \<Rightarrow> document" where
  "stringified d = (''_id'', Str (str_oid (oid d))) # body d"

subsection \<open>Looking a property up\<close>




subsection \<open>Creating a property\<close>

text \<open>\<^verbatim>\<open>UploadFile\<close>: the name the client gave (it may be absent) and the bytes.\<close>

record UploadFile =
  filename :: "string option"
  content :: string

text \<open>What an f-string prints for an optional string.\<close>

definition str_opt :: "string option \<Rightarrow> string" where
  "str_opt s = (case s of None \<Rightarrow> ''None'' | Some t \<Rightarrow> t)"

text \<open>\<^verbatim>\<open>os.path.join\<close> of two components, on POSIX.\<close>

definition os_path_join :: "string \<Rightarrow> string \<Rightarrow> string" where
  "os_path_join a b =
     (if prefix ''/'' b then b
      else if a = [] \<or> suffix ''/'' a then a @ b
      else a @ ''/'' @ b)"

text \<open>
  \<^verbatim>\<open>with open(filepath, "wb") as f: f.write(...)\<close>: the file at \<open>filepath\<close> holds the
  bytes afterwards. Opening is taken to succeed.
\<close>

definition write_file :: "string \<Rightarrow> string \<Rightarrow> state \<Rightarrow> state" where
  "write_file filepath bytes db = db\<lparr>files := (files db)(filepath \<mapsto> bytes)\<rparr>"

text \<open>
  The handler of \<^verbatim>\<open>POST /api/properties\<close>. \<open>UPLOAD_DIR\<close> is the module's constant
  and \<open>new_id\<close> the identifier \<^verbatim>\<open>insert_one\<close> assigns. The result is the state after
  the request and the response.
\<close>

definition create_property ::
  "string \<Rightarrow> state \<Rightarrow> objectid \<Rightarrow> string \<Rightarrow> string \<Rightarrow> string \<Rightarrow> string \<Rightarrow> real \<Rightarrow> int \<Rightarrow>
   string \<Rightarrow> string \<Rightarrow> string \<Rightarrow> UploadFile option \<Rightarrow> state \<times> (error + document)" where
  "create_property UPLOAD_DIR db new_id property_id title city locality rent_price area_sqft
     furnishing contact_details owner_id image_file =
     (let (db1, image_url) =
            (case image_file of
               None \<Rightarrow> (db, Null)
             | Some img \<Rightarrow>
                 (let filename = property_id @ ''_'' @ str_opt (filename img);
                      filepath = os_path_join UPLOAD_DIR filename
                  in (write_file filepath (content img) db, Str (''/uploads/'' @ filename))));
          doc = [(''property_id'', Str property_id),
                 (''title'', Str title),
                 (''city'', Str city),
                 (''locality'', Str locality),
                 (''rent_price'', Float rent_price),
                 (''area_sqft'', Intg area_sqft),
                 (''furnishing'', Str furnishing),
                 (''contact_details'', Str contact_details),
                 (''image_url'', image_url),
                 (''owner_id'', Str owner_id)]
      in if find_one [Field ''property_id'' (Eq (Str property_id))] (property db1) \<noteq> None
         then (db1, Inl (HTTPException 400 ''property_id must be unique''))
         else (db1\<lparr>property := insert_one new_id doc (property db1)\<rparr>,
               Inr (AList.update ''_id'' (Str (str_oid new_id)) doc)))"

subsection \<open>Updating a property\<close>

fun digit_char :: "nat \<Rightarrow> char" where
  "digit_char n = ''0123456789'' ! (n mod 10)"

fun decimal :: "nat \<Rightarrow> string" where
  "decimal n = (if n < 10 then [digit_char n] else decimal (n div 10) @ [digit_char n])"

text \<open>The texts Python prints for a float and for a datetime are left open.\<close>

definition float_repr :: "real \<Rightarrow> string" where
  "float_repr = undefined"

definition datetime_str :: "int \<Rightarrow> string" where
  "datetime_str = undefined"

text \<open>What an f-string prints for a value of a document.\<close>

fun py_str :: "val \<Rightarrow> string" where
  "py_str (Str s) = s"
| "py_str (Float r) = float_repr r"
| "py_str (Intg i) = (if i < 0 then ''-'' @ decimal (nat (- i)) else decimal (nat i))"
| "py_str Null = ''None''"
| "py_str (Id i) = str_oid i"
| "py_str (Datetime t) = datetime_str t"

text \<open>The loop over the form fields: a field that is not \<^verbatim>\<open>None\<close> goes into \<open>updates\<close>.\<close>

fun supplied :: "(string \<times> val option) list \<Rightarrow> document" where
  "supplied [] = []"
| "supplied ((key, None) # kvs) = supplied kvs"
| "supplied ((key, Some v) # kvs) = (key, v) # supplied kvs"

text \<open>The handler of \<^verbatim>\<open>PUT /api/properties/{prop_id}\<close>.\<close>

definition update_property ::
  "string \<Rightarrow> state \<Rightarrow> string \<Rightarrow> string option \<Rightarrow> string option \<Rightarrow> string option \<Rightarrow>
   real option \<Rightarrow> int option \<Rightarrow> string option \<Rightarrow> string option \<Rightarrow> UploadFile option \<Rightarrow>
   state \<times> (error + document)" where
  "update_property UPLOAD_DIR db prop_id title city locality rent_price area_sqft furnishing
     contact_details image_file =
     (let query = (case ObjectId prop_id of
                     Some i \<Rightarrow> [ById i]
                   | None \<Rightarrow> [Field ''property_id'' (Eq (Str prop_id))])
      in case find_one query (property db) of
           None \<Rightarrow> (db, Inl (HTTPException 404 ''Property not found''))
         | Some existing \<Rightarrow>
             (let updates = supplied
                    [(''title'', map_option Str title),
                     (''city'', map_option Str city),
                     (''locality'', map_option Str locality),
                     (''rent_price'', map_option Float rent_price),
                     (''area_sqft'', map_option Intg area_sqft),
                     (''furnishing'', map_option Str furnishing),
                     (''contact_details'', map_option Str contact_details)];
                  (db1, updates1) =
                    (case image_file of
                       None \<Rightarrow> (db, updates)
                     | Some img \<Rightarrow>
                         (let filename =
                                (case map_of (body existing) ''property_id'' of
                                   Some v \<Rightarrow> py_str v
                                 | None \<Rightarrow> prop_id) @ ''_'' @ str_opt (filename img);
                              filepath = os_path_join UPLOAD_DIR filename
                          in (write_file filepath (content img) db,
                              AList.update ''image_url'' (Str (''/uploads/'' @ filename)) updates)))
              in if updates1 = [] then (db1, Inr [(''message'', Str ''No changes'')])
                 else (let db2 = db1\<lparr>property := update_one query updates1 (property db1)\<rparr>
                       in case find_one query (property db2) of
                            None \<Rightarrow> (db2, Inl (Unhandled ''TypeError''))
                          | Some updated \<Rightarrow> (db2, Inr (stringified updated)))))"

subsection \<open>Contacting the owner\<close>

text \<open>\<^verbatim>\<open>schemas.ContactMessage\<close>, the type of the payload.\<close>

record ContactMessage =
  property_id :: string
  sender_id :: string
  sender_name :: string
  sender_email :: string
  message :: string
  created_at :: "int option"





subsection \<open>Logging in\<close>

text \<open>
  \<^verbatim>\<open>pwd_context.verify\<close> of \<^verbatim>\<open>CryptContext(schemes=["bcrypt"])\<close>, after the
  documentation of \<^verbatim>\<open>passlib\<close>: a hash that is \<^verbatim>\<open>None\<close> verifies as false; a string
  is identified as a bcrypt hash by its prefix, and one that no configured scheme
  identifies raises \<^verbatim>\<open>UnknownHashError\<close>; any other value raises \<^verbatim>\<open>TypeError\<close>.
  The scheme itself (which may reject a malformed hash or secret) is the parameter
  \<open>bcrypt\<close>.
\<close>

definition bcrypt_idents :: "string list" where
  "bcrypt_idents = [''$2$'', ''$2a$'', ''$2x$'', ''$2y$'', ''$2b$'']"

definition identify :: "string \<Rightarrow> bool" where
  "identify h = list_ex (\<lambda>ident. prefix ident h) bcrypt_idents"

definition pwd_context_verify ::
  "(string \<Rightarrow> string \<Rightarrow> error + bool) \<Rightarrow> string \<Rightarrow> val \<Rightarrow> error + bool" where
  "pwd_context_verify bcrypt secret h =
     (case h of
        Null \<Rightarrow> Inr False
      | Str s \<Rightarrow> if identify s then bcrypt secret s else Inl (Unhandled ''UnknownHashError'')
      | _ \<Rightarrow> Inl (Unhandled ''TypeError''))"

record LoginRequest =
  username :: string
  password :: string

text \<open>The handler of \<^verbatim>\<open>POST /api/auth/login\<close>.\<close>

definition login ::
  "(string \<Rightarrow> string \<Rightarrow> error + bool) \<Rightarrow> state \<Rightarrow> LoginRequest \<Rightarrow> error + document" where
  "login bcrypt db payload =
     (case find_one [Field ''username'' (Eq (Str (username payload)))] (user db) of
        None \<Rightarrow> Inl (HTTPException 400 ''Invalid credentials'')
      | Some u \<Rightarrow>
          (case pwd_context_verify bcrypt (password payload)
                  (case map_of (body u) ''hashed_password'' of None \<Rightarrow> Str [] | Some h \<Rightarrow> h) of
             Inl e \<Rightarrow> Inl e
           | Inr ok \<Rightarrow>
               if \<not> ok then Inl (HTTPException 400 ''Invalid credentials'')
               else (case map_of (body u) ''username'' of
                       None \<Rightarrow> Inl (Unhandled ''KeyError'')
                     | Some name \<Rightarrow>
                         Inr [(''_id'', Str (str_oid (oid u))),
                              (''username'', name),
                              (''role'', (case map_of (body u) ''role'' of
                                            None \<Rightarrow> Str ''customer''
                                          | Some r \<Rightarrow> r))])))"

subsection \<open>Listing properties\<close>

fun cond_patterns :: "cond \<Rightarrow> string list" where
  "cond_patterns (Regex p) = [p]"
| "cond_patterns _ = []"

fun clause_patterns :: "clause \<Rightarrow> string list" where
  "clause_patterns (ById i) = []"
| "clause_patterns (Field k c) = cond_patterns c"
| "clause_patterns (AnyOf kcs) = concat (map (\<lambda>(k, c). cond_patterns c) kcs)"

text \<open>
  \<^verbatim>\<open>limit\<close> on a cursor: zero is no limit, and a negative number bounds the result by
  its absolute value.
\<close>

definition limited :: "int \<Rightarrow> 'a list \<Rightarrow> 'a list" where
  "limited n xs = (if n = 0 then xs else take (nat \<bar>n\<bar>) xs)"

text \<open>
  \<^verbatim>\<open>find(query).limit(limit)\<close>, read to its end: the matching documents in the order
  of the collection. A pattern the engine rejects makes the store refuse the query,
  and the driver raises \<^verbatim>\<open>OperationFailure\<close>.
\<close>

definition find_limit ::
  "regex_engine \<Rightarrow> query \<Rightarrow> int \<Rightarrow> stored list \<Rightarrow> error + stored list" where
  "find_limit rx q n coll =
     (if list_all (\<lambda>p. rx p \<noteq> None) (concat (map clause_patterns q))
      then Inr (limited n (filter (matches rx q) coll))
      else Inl (Unhandled ''OperationFailure''))"

text \<open>
  The handler of \<^verbatim>\<open>GET /api/properties\<close>; the result is the list under
  \<^verbatim>\<open>"items"\<close>. An optional string is used when it is given and not empty.
\<close>

definition list_properties ::
  "regex_engine \<Rightarrow> state \<Rightarrow> string option \<Rightarrow> string option \<Rightarrow> string option \<Rightarrow>
   real option \<Rightarrow> real option \<Rightarrow> int \<Rightarrow> error + document list" where
  "list_properties rx db q city furnishing min_price max_price limit =
     (let query =
            (case q of
               None \<Rightarrow> []
             | Some s \<Rightarrow>
                 if s = [] then []
                 else [AnyOf [(''title'', Regex s), (''city'', Regex s), (''locality'', Regex s)]])
            @ (case city of
                 None \<Rightarrow> []
               | Some s \<Rightarrow> if s = [] then [] else [Field ''city'' (Regex s)])
            @ (case furnishing of
                 None \<Rightarrow> []
               | Some s \<Rightarrow> if s = [] then [] else [Field ''furnishing'' (Eq (Str s))])
            @ (if min_price \<noteq> None \<or> max_price \<noteq> None
               then [Field ''rent_price'' (Range min_price max_price)]
               else [])
      in case find_limit rx query limit (property db) of
           Inl e \<Rightarrow> Inl e
         | Inr docs \<Rightarrow> Inr (map stringified docs))"

subsection \<open>A fragment of the regular expressions of the store\<close>

text \<open>
  The store matches with PCRE. The fragment here has the patterns made of ordinary
  characters, each standing for itself, and of the dot, which stands for any character
  but the newline. \<open>pcre_fragment\<close> is an engine that accepts exactly these patterns and
  matches them as PCRE does with the option \<^verbatim>\<open>i\<close>.
\<close>

definition metachars :: "char list" where
  "metachars = [CHR 0x5C, CHR ''^'', CHR ''$'', CHR ''.'', CHR ''['', CHR '']'', CHR ''|'',
                CHR ''('', CHR '')'', CHR ''?'', CHR ''*'', CHR ''+'', CHR ''{'', CHR ''}'']"

datatype atom = Lit char | AnyChar

definition atom_of :: "char \<Rightarrow> atom option" where
  "atom_of c = (if c = CHR ''.'' then Some AnyChar
                else if c \<in> set metachars then None
                else Some (Lit c))"

fun compile :: "string \<Rightarrow> atom list option" where
  "compile [] = Some []"
| "compile (c # cs) =
     (case atom_of c of
        None \<Rightarrow> None
      | Some a \<Rightarrow> (case compile cs of None \<Rightarrow> None | Some as \<Rightarrow> Some (a # as)))"

fun atom_matches :: "atom \<Rightarrow> char \<Rightarrow> bool" where
  "atom_matches (Lit c) d = (lower_char c = lower_char d)"
| "atom_matches AnyChar d = (d \<noteq> CHR 0x0A)"

text \<open>The atoms match a prefix of the string.\<close>

fun match_here :: "atom list \<Rightarrow> string \<Rightarrow> bool" where
  "match_here [] s = True"
| "match_here (a # as) [] = False"
| "match_here (a # as) (d # s) = (atom_matches a d \<and> match_here as s)"

text \<open>The atoms match at some position of the string.\<close>

fun search :: "atom list \<Rightarrow> string \<Rightarrow> bool" where
  "search as [] = match_here as []"
| "search as (d # s) = (match_here as (d # s) \<or> search as s)"

definition pcre_fragment :: regex_engine where
  "pcre_fragment p = map_option search (compile p)"

text \<open>
  An engine reads the fragment as PCRE does when it agrees with \<open>pcre_fragment\<close> on
  every pattern of the fragment.
\<close>

definition reads_fragment :: "regex_engine \<Rightarrow> bool" where
  "reads_fragment rx = (\<forall>p m. pcre_fragment p = Some m \<longrightarrow> rx p = Some m)"

text \<open>A pattern without any metacharacter.\<close>

definition plain :: "string \<Rightarrow> bool" where
  "plain q = list_all (\<lambda>ch. ch \<notin> set metachars) q"

subsection \<open>The wording of the specification\<close>

text \<open>\<open>q\<close> occurs in \<open>s\<close> as a substring, letter case ignored.\<close>

definition icontains :: "string \<Rightarrow> string \<Rightarrow> bool" where
  "icontains q s = sublist (lower q) (lower s)"

text \<open>\<open>q\<close> occurs so in the field \<open>k\<close> of the document, which holds a string.\<close>

definition field_icontains :: "string \<Rightarrow> stored \<Rightarrow> string \<Rightarrow> bool" where
  "field_icontains q d k =
     (case map_of (body d) k of Some (Str s) \<Rightarrow> icontains q s | _ \<Rightarrow> False)"

definition q_occurs :: "string \<Rightarrow> stored \<Rightarrow> bool" where
  "q_occurs q d =
     (field_icontains q d ''title'' \<or> field_icontains q d ''city''
      \<or> field_icontains q d ''locality'')"


definition by_property_id :: "state \<Rightarrow> string \<Rightarrow> stored option" where
  "by_property_id db s = find_one [Field ''property_id'' (Eq (Str s))] (property db)"


text \<open>
  Resolution by one key only: the store identifier when the string has the syntax of
  one, the \<^verbatim>\<open>property_id\<close> otherwise.
\<close>

definition resolve :: "state \<Rightarrow> string \<Rightarrow> stored option" where
  "resolve db s =
     (case ObjectId s of Some i \<Rightarrow> find_one [ById i] (property db) | None \<Rightarrow> by_property_id db s)"



definition invalid_credentials :: error where
  "invalid_credentials = HTTPException 400 ''Invalid credentials''"

text \<open>The other filters of a list request, as the handler adds them to the query.\<close>

definition other_filters ::
  "string option \<Rightarrow> string option \<Rightarrow> real option \<Rightarrow> real option \<Rightarrow> query" where
  "other_filters city furnishing min_price max_price =
     (case city of
        None \<Rightarrow> []
      | Some s \<Rightarrow> if s = [] then [] else [Field ''city'' (Regex s)])
     @ (case furnishing of
          None \<Rightarrow> []
        | Some s \<Rightarrow> if s = [] then [] else [Field ''furnishing'' (Eq (Str s))])
     @ (if min_price \<noteq> None \<or> max_price \<noteq> None
        then [Field ''rent_price'' (Range min_price max_price)]
        else [])"





subsection \<open>Example states\<close>

definition home :: stored where
  "home = \<lparr>oid = Oid ''aaaaaaaaaaaaaaaaaaaaaaaa'',
           body = [(''property_id'', Str ''P1''),
                   (''title'', Str ''Flat''),
                   (''city'', Str ''Pune''),
                   (''locality'', Str ''Baner''),
                   (''rent_price'', Float 1000),
                   (''area_sqft'', Intg 500),
                   (''furnishing'', Str ''semi''),
                   (''contact_details'', Str ''call''),
                   (''image_url'', Null),
                   (''owner_id'', Str ''u1'')]\<rparr>"

text \<open>A property whose \<^verbatim>\<open>property_id\<close> has the syntax of a store identifier.\<close>

definition villa :: stored where
  "villa = \<lparr>oid = Oid ''cccccccccccccccccccccccc'',
            body = [(''property_id'', Str ''bbbbbbbbbbbbbbbbbbbbbbbb''),
                    (''title'', Str ''Villa''),
                    (''city'', Str ''Goa''),
                    (''locality'', Str ''Beach''),
                    (''rent_price'', Float 2000),
                    (''area_sqft'', Intg 900),
                    (''furnishing'', Str ''furnished''),
                    (''contact_details'', Str ''mail''),
                    (''image_url'', Null),
                    (''owner_id'', Str ''u2'')]\<rparr>"

definition empty_db :: state where
  "empty_db = \<lparr>user = [], property = [], contactmessage = [], files = Map.empty\<rparr>"

definition listed_db :: state where
  "listed_db = \<lparr>user = [], property = [home, villa], contactmessage = [],
                 files = Map.empty\<rparr>"


text \<open>A user document without the field \<^verbatim>\<open>hashed_password\<close>.\<close>

definition bob :: stored where
  "bob = \<lparr>oid = Oid ''dddddddddddddddddddddddd'', body = [(''username'', Str ''bob'')]\<rparr>"


section \<open>Properties of the handlers\<close>

subsection \<open>Auxiliary facts\<close>



lemma resolve_query:
  "find_one (case ObjectId s of Some i \<Rightarrow> [ById i]
             | None \<Rightarrow> [Field ''property_id'' (Eq (Str s))]) (property db) = resolve db s"
  by (simp add: resolve_def by_property_id_def split: option.splits)



lemma ObjectId_P1: "ObjectId ''P1'' = None"
  by (simp add: ObjectId_def)


lemma resolve_P1: "resolve listed_db ''P1'' = Some home"
  by (simp add: resolve_def by_property_id_def ObjectId_P1 find_one_def matches_def
      listed_db_def home_def)

subsection \<open>Lookup by an identifier string\<close>



subsection \<open>Creating under a \<^verbatim>\<open>property_id\<close> that is taken\<close>





subsection \<open>What a create request writes\<close>

text \<open>
  Claim C3 at a request with a negative rent and a negative area: the handler checks
  no range, and the document is inserted with both values.
\<close>

theorem create_negative_inserted:
  "create_property U empty_db i ''P1'' ''Flat'' ''Pune'' ''Baner'' (- 1) (- 5) ''semi'' ''call''
      ''u1'' None
   = (empty_db\<lparr>property :=
        [\<lparr>oid = i,
          body = [(''property_id'', Str ''P1''), (''title'', Str ''Flat''),
                  (''city'', Str ''Pune''), (''locality'', Str ''Baner''),
                  (''rent_price'', Float (- 1)), (''area_sqft'', Intg (- 5)),
                  (''furnishing'', Str ''semi''), (''contact_details'', Str ''call''),
                  (''image_url'', Null), (''owner_id'', Str ''u1'')]\<rparr>]\<rparr>,
      Inr [(''property_id'', Str ''P1''), (''title'', Str ''Flat''),
           (''city'', Str ''Pune''), (''locality'', Str ''Baner''),
           (''rent_price'', Float (- 1)), (''area_sqft'', Intg (- 5)),
           (''furnishing'', Str ''semi''), (''contact_details'', Str ''call''),
           (''image_url'', Null), (''owner_id'', Str ''u1''), (''_id'', Str (str_oid i))])"
  by (simp add: create_property_def empty_db_def find_one_def insert_one_def)




subsection \<open>Updating with nothing supplied\<close>

text \<open>
  Claim C6: for a property the lookup finds, an update request with no field and no
  image returns the message \<^verbatim>\<open>No changes\<close>, and the state after it is the state
  before: nothing is written.
\<close>

theorem update_nothing_no_write:
  assumes "resolve db s = Some e"
  shows "update_property U db s None None None None None None None None
           = (db, Inr [(''message'', Str ''No changes'')])"
  using assms by (simp add: update_property_def resolve_query)

text \<open>The theorem at an empty update of \<^verbatim>\<open>P1\<close>.\<close>

theorem update_nothing_no_write_witness:
  "resolve listed_db ''P1'' = Some home
   \<and> update_property ''/srv/uploads'' listed_db ''P1'' None None None None None None None None
       = (listed_db, Inr [(''message'', Str ''No changes'')])"
  using update_nothing_no_write [OF resolve_P1] resolve_P1 by simp

subsection \<open>Contacting the owner\<close>



subsection \<open>Logging in against a user without a hash\<close>

text \<open>
  Claim C8 at a user document that has no \<^verbatim>\<open>hashed_password\<close>: the handler passes
  the empty string to \<^verbatim>\<open>verify\<close>, which identifies no scheme in it and raises; nothing
  catches the exception, so the request ends with it and not with
  \<^verbatim>\<open>Invalid credentials\<close>.
\<close>

theorem login_missing_hash_crashes:
  "login bcrypt (empty_db\<lparr>user := [bob]\<rparr>) \<lparr>username = ''bob'', password = ''pw''\<rparr>
     = Inl (Unhandled ''UnknownHashError'')"
  by (simp add: login_def find_one_def matches_def bob_def pwd_context_verify_def identify_def
      bcrypt_idents_def empty_db_def)

subsection \<open>Partial update\<close>


















text \<open>The request that supplies only \<^verbatim>\<open>rent_price = 5000\<close>, evaluated.\<close>

lemma update_rent_only:
  "update_property ''/srv/uploads'' listed_db ''P1'' None None None (Some 5000) None None None None
     = (listed_db\<lparr>property := [home\<lparr>body := AList.update ''rent_price'' (Float 5000) (body home)\<rparr>, villa]\<rparr>,
        Inr (stringified (home\<lparr>body := AList.update ''rent_price'' (Float 5000) (body home)\<rparr>)))"
  by (simp add: update_property_def ObjectId_def listed_db_def find_one_def matches_def home_def villa_def set_fields_def)


subsection \<open>Searching with \<^verbatim>\<open>q\<close>\<close>

lemma compile_plain: "plain q \<Longrightarrow> compile q = Some (map Lit q)"
  by (induction q) (auto simp: plain_def atom_of_def metachars_def)

lemma match_here_literal: "match_here (map Lit q) s = prefix (lower q) (lower s)"
  by (induction q arbitrary: s) (case_tac s; auto simp: lower_def)+

lemma search_literal: "search (map Lit q) s = icontains q s"
proof (induction s)
  case Nil
  show ?case by (cases q) (simp_all add: icontains_def lower_def)
next
  case (Cons d s)
  have "sublist (lower q) (lower (d # s))
          = (prefix (lower q) (lower (d # s)) \<or> sublist (lower q) (lower s))"
    by (simp add: lower_def sublist_Cons_right)
  with Cons show ?case
    by (simp add: match_here_literal icontains_def del: match_here.simps)
qed

lemma pcre_fragment_plain: "plain q \<Longrightarrow> pcre_fragment q = Some (icontains q)"
  by (auto simp: pcre_fragment_def compile_plain search_literal)

lemma engine_plain:
  assumes "reads_fragment rx" and "plain q"
  shows "rx q = Some (icontains q)"
  using assms pcre_fragment_plain [of q] by (simp add: reads_fragment_def)

lemma holds_regex_plain:
  assumes "rx q = Some (icontains q)"
  shows "holds rx (Regex q) (map_of (body d) k) = field_icontains q d k"
proof (cases "map_of (body d) k")
  case None
  then show ?thesis by (simp add: field_icontains_def)
next
  case (Some v)
  with assms show ?thesis by (cases v) (simp_all add: field_icontains_def)
qed

lemma sat_q_clause:
  assumes "rx q = Some (icontains q)"
  shows "sat rx (AnyOf [(''title'', Regex q), (''city'', Regex q), (''locality'', Regex q)]) d
           = q_occurs q d"
  using assms by (simp add: holds_regex_plain q_occurs_def)

lemma list_properties_query:
  "list_properties rx db (Some q) city furnishing min_price max_price limit =
     (case find_limit rx
        ((if q = [] then []
          else [AnyOf [(''title'', Regex q), (''city'', Regex q), (''locality'', Regex q)]])
         @ other_filters city furnishing min_price max_price) limit (property db) of
        Inl e \<Rightarrow> Inl e
      | Inr docs \<Rightarrow> Inr (map stringified docs))"
  by (simp add: list_properties_def other_filters_def)

lemma lower_Pune: "lower ''Pune'' = ''pune''" "lower ''pune'' = ''pune''"
  "lower ''Flat'' = ''flat''" "lower ''Baner'' = ''baner''" "lower ''Villa'' = ''villa''"
  "lower ''Goa'' = ''goa''" "lower ''Beach'' = ''beach''" "lower ''.'' = ''.''"
  by (simp_all add: lower_def lower_char_def)

lemma q_occurs_pune: "q_occurs ''pune'' home" "\<not> q_occurs ''pune'' villa"
  by (simp_all add: q_occurs_def field_icontains_def icontains_def home_def villa_def
      lower_Pune sublist_code prefix_code)

text \<open>
  The wording of claim C4 fails at \<^verbatim>\<open>q = "."\<close>: the dot occurs in no title, city or
  locality of the two stored properties, and the handler returns both, since the store
  reads \<^verbatim>\<open>q\<close> as a regular expression, in which the dot matches any character.
\<close>

theorem list_dot_matches_all:
  "list_properties pcre_fragment listed_db (Some ''.'') None None None None 100
     = Inr [stringified home, stringified villa]
   \<and> \<not> q_occurs ''.'' home \<and> \<not> q_occurs ''.'' villa"
  by (simp add: list_properties_def find_limit_def pcre_fragment_def atom_of_def limited_def
      matches_def listed_db_def home_def villa_def q_occurs_def field_icontains_def
      icontains_def lower_Pune sublist_code prefix_code)

text \<open>
  Claim C4, amended: for a list request with a non-empty \<^verbatim>\<open>q\<close> that holds no
  metacharacter of regular expressions, when the patterns of the other filters compile,
  the items returned are the stored properties in which \<^verbatim>\<open>q\<close> occurs, letter case
  ignored, as a substring of the string \<^verbatim>\<open>title\<close>, \<^verbatim>\<open>city\<close> or \<^verbatim>\<open>locality\<close> and which
  pass the other filters, in the order of the store and cut at the limit.
\<close>

theorem list_q_plain:
  assumes "reads_fragment rx" and "q \<noteq> []" and "plain q"
    and "list_all (\<lambda>p. rx p \<noteq> None)
           (concat (map clause_patterns (other_filters city furnishing min_price max_price)))"
  shows "list_properties rx db (Some q) city furnishing min_price max_price limit
           = Inr (map stringified
               (limited limit
                 (filter (\<lambda>d. q_occurs q d
                           \<and> matches rx (other_filters city furnishing min_price max_price) d)
                    (property db))))"
proof -
  have e: "rx q = Some (icontains q)"
    by (rule engine_plain [OF assms(1) assms(3)])
  have m: "matches rx
             (AnyOf [(''title'', Regex q), (''city'', Regex q), (''locality'', Regex q)]
              # other_filters city furnishing min_price max_price)
           = (\<lambda>d. q_occurs q d
                  \<and> matches rx (other_filters city furnishing min_price max_price) d)"
    using e by (intro ext) (simp add: matches_def sat_q_clause del: sat.simps)
  show ?thesis
    using assms(2) assms(4) e
    by (simp add: list_properties_query find_limit_def m)
qed

text \<open>The theorem at \<^verbatim>\<open>q = "pune"\<close>, which finds the flat in Pune only.\<close>

theorem list_q_plain_witness:
  "reads_fragment pcre_fragment \<and> ''pune'' \<noteq> [] \<and> plain ''pune''
   \<and> list_all (\<lambda>p. pcre_fragment p \<noteq> None)
        (concat (map clause_patterns (other_filters None None None None)))
   \<and> list_properties pcre_fragment listed_db (Some ''pune'') None None None None 100
       = Inr [stringified home]"
proof -
  have h1: "reads_fragment pcre_fragment" by (simp add: reads_fragment_def)
  have h2: "''pune'' \<noteq> []" by simp
  have h3: "plain ''pune''" by (simp add: plain_def metachars_def)
  have h4: "list_all (\<lambda>p. pcre_fragment p \<noteq> None)
        (concat (map clause_patterns (other_filters None None None None)))"
    by (simp add: other_filters_def)
  have o: "other_filters None None None None = []" by (simp add: other_filters_def)
  show ?thesis
    using h1 h2 h3 h4 list_q_plain [OF h1 h2 h3 h4, of listed_db 100] q_occurs_pune
    by (simp add: o matches_def limited_def listed_db_def)
qed

end
